theory Spec2Isabelle
  imports Complex_Main "HOL-Library.Sublist"
begin

section \<open>Python strings\<close>

text \<open>
  A Python \<open>str\<close> is a sequence of Unicode code points. A code point is modelled as a
  natural number (Python's are below \<open>0x110000\<close>; nothing below depends on that bound),
  and an ASCII literal of the source is written \<open>py ''...''\<close>.
\<close>

type_synonym pystr = "nat list"

definition py :: "string \<Rightarrow> pystr" where
  "py s = map of_char s"

text \<open>
  \<open>str.isspace\<close> for one code point: the code points CPython's
  \<open>_PyUnicode_IsWhitespace\<close> accepts. \<open>str.strip()\<close> without argument removes exactly
  these from both ends.
\<close>

definition is_space :: "nat \<Rightarrow> bool" where
  "is_space c \<longleftrightarrow>
     (9 \<le> c \<and> c \<le> 13) \<or> (28 \<le> c \<and> c \<le> 32) \<or> c = 133 \<or> c = 160 \<or> c = 5760 \<or>
     (8192 \<le> c \<and> c \<le> 8202) \<or> c = 8232 \<or> c = 8233 \<or> c = 8239 \<or> c = 8287 \<or> c = 12288"

definition strip :: "pystr \<Rightarrow> pystr" where
  "strip s = rev (dropWhile is_space (rev (dropWhile is_space s)))"

text \<open>
  \<open>s.replace(old, new)\<close>: the occurrences of \<open>old\<close> are found scanning from the left,
  without overlap, and each is replaced by \<open>new\<close>. With an empty \<open>old\<close> Python puts
  \<open>new\<close> before every character and at the end.
\<close>

function str_replace :: "pystr \<Rightarrow> pystr \<Rightarrow> pystr \<Rightarrow> pystr" where
  "str_replace old new s =
     (if old = [] then new @ concat (map (\<lambda>c. c # new) s)
      else if s = [] then []
      else if prefix old s then new @ str_replace old new (drop (length old) s)
      else hd s # str_replace old new (tl s))"
  by pat_completeness auto
termination
  by (relation "measure (\<lambda>(old, new, s). length s)") auto

declare str_replace.simps [simp del]

section \<open>Response sanitizer\<close>

text \<open>
  Lines 263 and 266 of \<open>lambda_function.py\<close>:
  \<^verbatim>\<open>command = text.strip()\<close> followed by
  \<^verbatim>\<open>command = command.replace('```bash', '').replace('```', '').strip()\<close>.
\<close>

definition fence :: pystr where
  "fence = py ''```''"

definition fence_bash :: pystr where
  "fence_bash = py ''```bash''"

definition sanitize :: "pystr \<Rightarrow> pystr" where
  "sanitize text = strip (str_replace fence [] (str_replace fence_bash [] (strip text)))"

section \<open>Backend Invoker: the retry loop of \<open>generate_shell_command\<close>\<close>

text \<open>
  An exception raised by \<open>bedrock.invoke_model\<close> is either a botocore \<open>ClientError\<close>, which
  carries \<open>e.response['Error']['Code']\<close> and optionally \<open>e.response['Error']['Message']\<close>,
  or an exception of some other class (for example a botocore connection or read-timeout
  error, which derive from \<open>BotoCoreError\<close> and not from \<open>ClientError\<close>). The second
  constructor also stands for the exceptions Python itself raises while the handler runs;
  its argument names the class.
\<close>

datatype exn =
  ClientError pystr "pystr option"
| PyException string

text \<open>
  A JSON value, as \<open>json.loads\<close> returns it; an object is an association list read with
  \<open>map_of\<close>.
\<close>

datatype json =
  JNull
| JBool bool
| JNum rat
| JStr pystr
| JArr "json list"
| JObj "(pystr \<times> json) list"

text \<open>
  What one call of \<open>bedrock.invoke_model\<close> does: it returns a response, of which the
  code only uses the text read from \<open>response['body']\<close>, or it raises.
  The backend, seen from one request, is the sequence of outcomes of the successive calls,
  indexed by the attempt number.
\<close>

datatype outcome =
  Returns pystr
| Raises exn

type_synonym backend = "nat \<Rightarrow> outcome"

text \<open>
  Time is modelled in exact rational arithmetic. \<open>clock n\<close> is the value \<open>time.time()\<close>
  returns when it is read at line 242 after attempt \<open>n\<close> has failed. The effects of the
  loop that the properties are about are recorded in a trace: how many times the backend
  was called, and the arguments of the calls of \<open>time.sleep\<close>, in order. Logging is not
  recorded.
\<close>

type_synonym clock = "nat \<Rightarrow> rat"

record trace =
  calls :: nat
  sleeps :: "rat list"

definition no_trace :: trace where
  "no_trace = \<lparr>calls = 0, sleeps = []\<rparr>"

definition max_retries :: nat where
  "max_retries = 5"

definition base_delay :: rat where
  "base_delay = 2"

definition throttling_codes :: "pystr list" where
  "throttling_codes =
     [py ''ThrottlingException'', py ''TooManyRequestsException'',
      py ''ServiceQuotaExceededException'']"

text \<open>Python's \<open>x % m\<close> on numbers, for a positive \<open>m\<close>: the result has the sign of \<open>m\<close>.\<close>

definition py_mod :: "rat \<Rightarrow> rat \<Rightarrow> rat" where
  "py_mod x m = x - m * of_int \<lfloor>x / m\<rfloor>"

definition jitter :: "clock \<Rightarrow> nat \<Rightarrow> rat" where
  "jitter clk attempt = py_mod (clk attempt) (1 / 2)"

definition throttle_delay :: "clock \<Rightarrow> nat \<Rightarrow> rat" where
  "throttle_delay clk attempt = base_delay * 2 ^ attempt + jitter clk attempt"

definition other_delay :: "nat \<Rightarrow> rat" where
  "other_delay attempt = 1 + of_nat attempt * (1 / 2)"

text \<open>
  The body of the \<open>for\<close> loop (lines 220 to 257) for one value of \<open>attempt\<close>:
  \<open>Break\<close> leaves the loop with the response, \<open>Sleep d\<close> calls \<open>time.sleep(d)\<close> and goes
  on with the next value, \<open>Reraise\<close> is the bare \<open>raise\<close> of lines 248 and 257, and
  \<open>Propagate\<close> is an exception the \<open>except ClientError\<close> clause does not catch.
\<close>

datatype action =
  Break pystr
| Sleep rat
| Reraise exn
| Propagate exn

fun attempt_body :: "backend \<Rightarrow> clock \<Rightarrow> nat \<Rightarrow> action" where
  "attempt_body b clk attempt =
     (case b attempt of
        Returns r \<Rightarrow> Break r
      | Raises (ClientError error_code error_message) \<Rightarrow>
          if error_code \<in> set throttling_codes \<and> attempt < max_retries
          then Sleep (throttle_delay clk attempt)
          else if error_code = py ''ValidationException''
          then Reraise (ClientError error_code error_message)
          else if attempt < max_retries
          then Sleep (other_delay attempt)
          else Reraise (ClientError error_code error_message)
      | Raises (PyException c) \<Rightarrow> Propagate (PyException c))"

text \<open>
  The three kinds of \<open>ClientError\<close> the \<open>except\<close> clause tells apart by
  \<open>error_code\<close>: a throttling code (line 240), \<open>ValidationException\<close> (line 245), and
  every other code.
\<close>

definition throttled :: "outcome \<Rightarrow> bool" where
  "throttled oc =
     (case oc of
        Raises (ClientError error_code _) \<Rightarrow> error_code \<in> set throttling_codes
      | _ \<Rightarrow> False)"

definition validation_error :: "outcome \<Rightarrow> bool" where
  "validation_error oc =
     (case oc of
        Raises (ClientError error_code _) \<Rightarrow> error_code = py ''ValidationException''
      | _ \<Rightarrow> False)"

definition other_client_error :: "outcome \<Rightarrow> bool" where
  "other_client_error oc =
     (case oc of
        Raises (ClientError error_code _) \<Rightarrow>
          error_code \<notin> set throttling_codes \<and> error_code \<noteq> py ''ValidationException''
      | _ \<Rightarrow> False)"

text \<open>
  The \<open>for attempt in range(max_retries + 1)\<close> loop over the remaining values of
  \<open>attempt\<close>. When the range is used up without \<open>break\<close> or \<open>raise\<close>, line 260 reads the
  unbound variable \<open>response\<close>.
\<close>

fun retry_loop :: "backend \<Rightarrow> clock \<Rightarrow> nat list \<Rightarrow> trace \<Rightarrow> (exn + pystr) \<times> trace" where
  "retry_loop b clk [] tr = (Inl (PyException ''UnboundLocalError''), tr)"
| "retry_loop b clk (attempt # rest) tr =
     (let tr' = tr\<lparr>calls := calls tr + 1\<rparr> in
      case attempt_body b clk attempt of
        Break r \<Rightarrow> (Inr r, tr')
      | Sleep d \<Rightarrow> retry_loop b clk rest (tr'\<lparr>sleeps := sleeps tr' @ [d]\<rparr>)
      | Reraise e \<Rightarrow> (Inl e, tr')
      | Propagate e \<Rightarrow> (Inl e, tr'))"

definition invoke :: "backend \<Rightarrow> clock \<Rightarrow> (exn + pystr) \<times> trace" where
  "invoke b clk = retry_loop b clk [0..<max_retries + 1] no_trace"

text \<open>
  Lines 260 and 263: \<open>json.loads\<close> of the body, then
  \<open>response_body['content'][0]['text']\<close>, on which \<open>.strip()\<close> is called.
  \<open>json.loads\<close> is a parameter, \<open>None\<close> being a \<open>JSONDecodeError\<close>. The subscripts and
  the method call raise unless the value is an object with a \<open>content\<close> field, that field
  is a non-empty array whose first element is an object with a \<open>text\<close> field, and that
  field is a string (a non-empty string \<open>content\<close> passes \<open>[0]\<close> and fails at \<open>['text']\<close>).
\<close>

type_synonym loads = "pystr \<Rightarrow> json option"

definition subscript_text :: "json \<Rightarrow> exn + pystr" where
  "subscript_text first =
     (case first of
        JObj e \<Rightarrow>
          (case map_of e (py ''text'') of
             None \<Rightarrow> Inl (PyException ''KeyError'')
           | Some (JStr t) \<Rightarrow> Inr t
           | Some _ \<Rightarrow> Inl (PyException ''AttributeError''))
      | _ \<Rightarrow> Inl (PyException ''TypeError''))"

definition extract_text :: "json \<Rightarrow> exn + pystr" where
  "extract_text response_body =
     (case response_body of
        JObj d \<Rightarrow>
          (case map_of d (py ''content'') of
             None \<Rightarrow> Inl (PyException ''KeyError'')
           | Some (JArr []) \<Rightarrow> Inl (PyException ''IndexError'')
           | Some (JArr (first # _)) \<Rightarrow> subscript_text first
           | Some (JStr []) \<Rightarrow> Inl (PyException ''IndexError'')
           | Some (JObj _) \<Rightarrow> Inl (PyException ''KeyError'')
           | Some _ \<Rightarrow> Inl (PyException ''TypeError''))
      | _ \<Rightarrow> Inl (PyException ''TypeError''))"

text \<open>
  The \<open>try\<close> block of \<open>generate_shell_command\<close> (lines 195 to 269): the retry loop, the
  parsing of the response and the clean-up of the command (\<open>sanitize\<close> is the \<open>strip\<close> of
  line 263 followed by line 266).
\<close>

definition try_generate :: "loads \<Rightarrow> backend \<Rightarrow> clock \<Rightarrow> (exn + pystr) \<times> trace" where
  "try_generate ld b clk =
     (case invoke b clk of
        (Inl e, tr) \<Rightarrow> (Inl e, tr)
      | (Inr r, tr) \<Rightarrow>
          (case ld r of
             None \<Rightarrow> (Inl (PyException ''JSONDecodeError''), tr)
           | Some response_body \<Rightarrow>
               (case extract_text response_body of
                  Inl e \<Rightarrow> (Inl e, tr)
                | Inr t \<Rightarrow> (Inr (sanitize t), tr))))"

text \<open>
  \<open>generate_shell_command(query, context)\<close>. The user prompt is built before the \<open>try\<close>
  (lines 185 to 193) and calls \<open>context.get\<close>, which only a dict has: with any other
  \<open>context\<close> an \<open>AttributeError\<close> leaves the function. Inside the \<open>try\<close>, every exception
  is caught at line 271 and the function returns \<open>None\<close>. The prompt texts themselves are
  not modelled: they only reach the backend, whose outcomes are a parameter here.
\<close>

definition generate_shell_command ::
  "loads \<Rightarrow> backend \<Rightarrow> clock \<Rightarrow> pystr \<Rightarrow> json \<Rightarrow> (exn + pystr option) \<times> trace" where
  "generate_shell_command ld b clk query ctx =
     (case ctx of
        JObj _ \<Rightarrow>
          (case try_generate ld b clk of
             (Inl e, tr) \<Rightarrow> (Inr None, tr)
           | (Inr command, tr) \<Rightarrow> (Inr (Some command), tr))
      | _ \<Rightarrow> (Inl (PyException ''AttributeError''), no_trace))"

section \<open>Request Service Adapter: \<open>lambda_handler\<close>\<close>

text \<open>
  A response of the handler. The body is either \<open>json.dumps\<close> of a dict, kept as the dict
  it serialises, or a plain string.
\<close>

datatype body =
  json_dumps "(pystr \<times> pystr) list"
| text_body pystr

record response =
  statusCode :: nat
  headers :: "(pystr \<times> pystr) list"
  body :: body

definition json_headers :: "(pystr \<times> pystr) list" where
  "json_headers =
     [(py ''Content-Type'', py ''application/json''),
      (py ''Access-Control-Allow-Origin'', py ''*'')]"

definition error_response :: "nat \<Rightarrow> string \<Rightarrow> response" where
  "error_response code msg =
     \<lparr>statusCode = code, headers = json_headers,
      body = json_dumps [(py ''error'', py msg)]\<rparr>"

definition success_response :: "pystr \<Rightarrow> pystr \<Rightarrow> response" where
  "success_response command query =
     \<lparr>statusCode = 200, headers = json_headers,
      body = json_dumps [(py ''command'', command), (py ''query'', query)]\<rparr>"

text \<open>
  Lines 26 to 29: the request body. The event is a dict; \<open>event['body']\<close> is parsed when
  it is a string and taken as it is otherwise, and the event itself is the body when it
  has no such key.
\<close>

type_synonym event = "(pystr \<times> json) list"

definition request_body :: "loads \<Rightarrow> event \<Rightarrow> exn + json" where
  "request_body ld event =
     (case map_of event (py ''body'') of
        Some (JStr s) \<Rightarrow>
          (case ld s of
             None \<Rightarrow> Inl (PyException ''JSONDecodeError'')
           | Some v \<Rightarrow> Inr v)
      | Some v \<Rightarrow> Inr v
      | None \<Rightarrow> Inr (JObj event))"

text \<open>
  Line 31, \<open>body.get('query', '').strip()\<close>, and line 32, \<open>body.get('context', {})\<close>:
  \<open>get\<close> needs a dict and \<open>strip\<close> a string.
\<close>

definition get_query :: "json \<Rightarrow> exn + pystr" where
  "get_query b =
     (case b of
        JObj d \<Rightarrow>
          (case map_of d (py ''query'') of
             None \<Rightarrow> Inr (strip [])
           | Some (JStr q) \<Rightarrow> Inr (strip q)
           | Some _ \<Rightarrow> Inl (PyException ''AttributeError''))
      | _ \<Rightarrow> Inl (PyException ''AttributeError''))"

definition get_context :: "json \<Rightarrow> exn + json" where
  "get_context b =
     (case b of
        JObj d \<Rightarrow>
          (case map_of d (py ''context'') of
             None \<Rightarrow> Inr (JObj [])
           | Some c \<Rightarrow> Inr c)
      | _ \<Rightarrow> Inl (PyException ''AttributeError''))"

text \<open>
  The \<open>try\<close> block of \<open>lambda_handler\<close> (lines 25 to 73), with the exception that leaves
  it, if any; \<open>not command\<close> holds for \<open>None\<close> and for the empty string.
\<close>

definition handler_try :: "loads \<Rightarrow> backend \<Rightarrow> clock \<Rightarrow> event \<Rightarrow> (exn + response) \<times> trace" where
  "handler_try ld b clk event =
     (case request_body ld event of
        Inl e \<Rightarrow> (Inl e, no_trace)
      | Inr bdy \<Rightarrow>
          (case get_query bdy of
             Inl e \<Rightarrow> (Inl e, no_trace)
           | Inr query \<Rightarrow>
               (case get_context bdy of
                  Inl e \<Rightarrow> (Inl e, no_trace)
                | Inr user_context \<Rightarrow>
                    if query = [] then (Inr (error_response 400 ''Query parameter is required''), no_trace)
                    else
                      (case generate_shell_command ld b clk query user_context of
                         (Inl e, tr) \<Rightarrow> (Inl e, tr)
                       | (Inr None, tr) \<Rightarrow>
                           (Inr (error_response 500 ''Failed to generate shell command''), tr)
                       | (Inr (Some command), tr) \<Rightarrow>
                           if command = []
                           then (Inr (error_response 500 ''Failed to generate shell command''), tr)
                           else (Inr (success_response command query), tr)))))"

text \<open>\<open>lambda_handler\<close>: the \<open>except Exception\<close> clause of line 75 answers every exception.\<close>

definition lambda_handler :: "loads \<Rightarrow> backend \<Rightarrow> clock \<Rightarrow> event \<Rightarrow> response \<times> trace" where
  "lambda_handler ld b clk event =
     (case handler_try ld b clk event of
        (Inl e, tr) \<Rightarrow> (error_response 500 ''Internal server error'', tr)
      | (Inr r, tr) \<Rightarrow> (r, tr))"

text \<open>\<open>handle_cors_preflight()\<close>, lines 276 to 286. No line of the file calls it.\<close>

definition handle_cors_preflight :: response where
  "handle_cors_preflight =
     \<lparr>statusCode = 200,
      headers =
        [(py ''Access-Control-Allow-Origin'', py ''*''),
         (py ''Access-Control-Allow-Methods'', py ''POST, GET, OPTIONS''),
         (py ''Access-Control-Allow-Headers'', py ''Content-Type, Authorization'')],
      body = text_body []\<rparr>"

section \<open>CLI Orchestrator: \<open>shellmate.py\<close>\<close>

text \<open>
  What the process writes and runs: the arguments of the \<open>print\<close> calls on standard output
  and on standard error, one entry per call (\<open>print\<close> ends each with a newline), and the
  commands handed to \<open>os.system\<close>. The prompt that \<open>input\<close> shows is not recorded.
\<close>

record io =
  out :: "pystr list"
  err :: "pystr list"
  executed :: "pystr list"

definition io0 :: io where
  "io0 = \<lparr>out = [], err = [], executed = []\<rparr>"

definition print_out :: "pystr \<Rightarrow> io \<Rightarrow> io" where
  "print_out s w = w\<lparr>out := out w @ [s]\<rparr>"

definition print_err :: "pystr \<Rightarrow> io \<Rightarrow> io" where
  "print_err s w = w\<lparr>err := err w @ [s]\<rparr>"

text \<open>
  What the \<open>try\<close> block of \<open>query_ai\<close> (lines 27 to 54) does. Either the service's answer
  decodes to a JSON object, of which only the \<open>command\<close> field is read (\<open>None\<close> when the
  object has no such field; the field is a string, as the service writes it), or an
  exception is raised: \<open>HTTPError\<close> with the texts of \<open>e.code\<close> and \<open>e.reason\<close>,
  \<open>URLError\<close> with the text of \<open>e.reason\<close>, \<open>JSONDecodeError\<close> or any other exception
  (also the \<open>AttributeError\<close> of \<open>result.get\<close> when the answer is not an object) with
  its text.
\<close>

datatype reply =
  Result "pystr option"
| HTTPError pystr pystr
| URLError pystr
| JSONDecodeError pystr
| OtherException pystr

definition query_ai :: "reply \<Rightarrow> io \<Rightarrow> pystr option \<times> io" where
  "query_ai r w =
     (case r of
        Result None \<Rightarrow> (Some [], w)
      | Result (Some c) \<Rightarrow> (Some c, w)
      | HTTPError code reason \<Rightarrow>
          (None, print_err (py ''HTTP Error '' @ code @ py '': '' @ reason) w)
      | URLError reason \<Rightarrow> (None, print_err (py ''URL Error: '' @ reason) w)
      | JSONDecodeError e \<Rightarrow> (None, print_err (py ''JSON Error: '' @ e) w)
      | OtherException e \<Rightarrow> (None, print_err (py ''Unexpected error: '' @ e) w))"

text \<open>
  What happens at \<open>input(prompt_char)\<close> (line 99): the operator confirms a line, or
  \<open>KeyboardInterrupt\<close> or \<open>EOFError\<close> is raised, or another exception with its text.
  \<open>os.system\<close> is a parameter: it returns the status of the command, or raises (\<open>Inl\<close>,
  with the text of the exception) without running anything.
\<close>

datatype operator =
  Enters pystr
| KeyboardInterrupt
| EOFError
| InputException pystr

type_synonym os_system = "pystr \<Rightarrow> pystr + int"

text \<open>
  \<open>execute_command(command)\<close>. \<open>show_prompt\<close> is the value of
  \<^verbatim>\<open>os.environ.get('SHELLMATE_SHOW_PROMPT', 'true').lower() in ('true', '1', 'yes')\<close>.
\<close>

definition execute_command :: "bool \<Rightarrow> operator \<Rightarrow> os_system \<Rightarrow> pystr \<Rightarrow> io \<Rightarrow> bool \<times> io" where
  "execute_command show_prompt operator system command w =
     (if command = [] then (False, print_err (py ''No command generated'') w)
      else
        let w1 = print_out (py ''Generated command: '' @ command) w;
            w2 = (if show_prompt
                  then print_out (py ''Press Enter to execute, or Ctrl+C to cancel:'') w1
                  else w1)
        in case operator of
             Enters user_command \<Rightarrow>
               if strip user_command \<noteq> [] then
                 (case system user_command of
                    Inr result \<Rightarrow> (result = 0, w2\<lparr>executed := executed w2 @ [user_command]\<rparr>)
                  | Inl e \<Rightarrow> (False, print_err (py ''Error: '' @ e) w2))
               else (False, print_out (py ''No command to execute'') w2)
           | KeyboardInterrupt \<Rightarrow> (False, print_out (py ''\<newline>Command cancelled'') w2)
           | EOFError \<Rightarrow> (False, print_out (py ''\<newline>Command cancelled'') w2)
           | InputException e \<Rightarrow> (False, print_err (py ''Error: '' @ e) w2))"

text \<open>The backslash, and \<open>run(query, seamless)\<close> (lines 128 to 152).\<close>

definition backslash :: nat where
  "backslash = 92"

definition run ::
  "reply \<Rightarrow> bool \<Rightarrow> operator \<Rightarrow> os_system \<Rightarrow> pystr \<Rightarrow> bool \<Rightarrow> io \<Rightarrow> bool \<times> io" where
  "run r show_prompt operator system query seamless w =
     (case query_ai r w of
        (None, w1) \<Rightarrow>
          (False, if \<not> seamless
                  then print_err (py ''Failed to get command from AI service'') w1 else w1)
      | (Some command, w1) \<Rightarrow>
          if command = [] then
            (False, if \<not> seamless
                    then print_err (py ''Failed to get command from AI service'') w1 else w1)
          else if seamless then
            (True, print_out (str_replace [backslash] [backslash, backslash] command) w1)
          else
            execute_command show_prompt operator system command
              (if show_prompt then print_out (py ''Query: '' @ query) w1 else w1))"

text \<open>
  \<open>' '.join(args.query)\<close>, and \<open>main\<close> with the exit status of the process.
  \<open>parser.error\<close> is argparse's: it writes the usage and the message to standard error
  (recorded here as the message alone) and exits with status 2. \<open>ShellMate()\<close> exits with
  status 1 when \<open>SHELLMATE_API_ENDPOINT\<close> is unset or empty.
\<close>

fun join_space :: "pystr list \<Rightarrow> pystr" where
  "join_space [] = []"
| "join_space [x] = x"
| "join_space (x # y # ys) = x @ py '' '' @ join_space (y # ys)"

definition main ::
  "pystr list \<Rightarrow> bool \<Rightarrow> pystr option \<Rightarrow> reply \<Rightarrow> bool \<Rightarrow> operator \<Rightarrow> os_system \<Rightarrow> nat \<times> io" where
  "main args_query args_seamless endpoint r show_prompt operator system =
     (if args_query = [] then
        (2, print_err (py ''No query provided. Use --help for usage information.'') io0)
      else
        let query = join_space args_query in
        if endpoint = None \<or> endpoint = Some [] then
          (1, print_err (py ''Error: SHELLMATE_API_ENDPOINT environment variable not set'') io0)
        else
          (case run r show_prompt operator system query args_seamless io0 of
             (success, w) \<Rightarrow> (if success then 0 else 1, w)))"

section \<open>Test inputs\<close>

text \<open>
  Backends of the kind the specification's tests use: one that is throttled on attempts
  0 to 2 and answers on attempt 3, one that rejects the request, one whose every call
  fails with a server error, one whose call times out in the HTTP client (an exception
  that is not a \<open>ClientError\<close>), and a clock.
\<close>

definition stub_throttled_thrice :: backend where
  "stub_throttled_thrice n =
     (if n < 3 then Raises (ClientError (py ''ThrottlingException'') (Some (py ''slow down'')))
      else Returns (py ''ok''))"

definition stub_invalid :: backend where
  "stub_invalid n = Raises (ClientError (py ''ValidationException'') (Some (py ''bad input'')))"

definition stub_server_error :: backend where
  "stub_server_error n = Raises (ClientError (py ''InternalServerException'') None)"

definition stub_timeout :: backend where
  "stub_timeout n = Raises (PyException ''ReadTimeoutError'')"

definition stub_clock :: clock where
  "stub_clock n = 7 / 4"


definition event_list_files :: event where
  "event_list_files = [(py ''query'', JStr (py ''list files''))]"

definition event_preflight :: event where
  "event_preflight = [(py ''httpMethod'', JStr (py ''OPTIONS'')), (py ''body'', JNull)]"

text \<open>
  An event whose body is \<open>null\<close>, a backend that answers at the first call, and three
  behaviours of \<open>json.loads\<close>: the text does not parse, it parses to \<open>null\<close>, it parses to
  a completion whose text is a fenced command.
\<close>

definition event_null_body :: event where
  "event_null_body = [(py ''body'', JNull)]"

definition stub_answer :: backend where
  "stub_answer n = Returns (py ''raw bytes'')"

definition loads_fails :: loads where
  "loads_fails s = None"

definition loads_null :: loads where
  "loads_null s = Some JNull"

definition loads_completion :: loads where
  "loads_completion s =
     Some (JObj [(py ''content'',
                  JArr [JObj [(py ''text'', JStr (py ''```bash\<newline>ls -la\<newline>```''))]])])"

text \<open>
  For the CLI: an \<open>os.system\<close> whose every command succeeds, an endpoint, the service's
  answer with the command \<open>grep a\b\<close> (one backslash), and an HTTP error.
\<close>

definition system_ok :: os_system where
  "system_ok command = Inr 0"

definition some_endpoint :: "pystr option" where
  "some_endpoint = Some (py ''https://example.invalid/prod'')"

definition reply_grep :: reply where
  "reply_grep = Result (Some (py ''grep a'' @ [backslash] @ py ''b''))"

definition reply_http_error :: reply where
  "reply_http_error = HTTPError (py ''500'') (py ''Internal Server Error'')"

section \<open>Properties of the response sanitizer\<close>

lemma strip_sublist: "sublist (strip s) s"
proof -
  have "suffix (dropWhile is_space (rev (dropWhile is_space s))) (rev (dropWhile is_space s))"
    by (rule suffix_dropWhile)
  then have "sublist (dropWhile is_space (rev (dropWhile is_space s))) (rev (dropWhile is_space s))"
    by (rule suffix_imp_sublist)
  then have "sublist (strip s) (dropWhile is_space s)"
    unfolding strip_def by (metis sublist_rev rev_rev_ident)
  moreover have "sublist (dropWhile is_space s) s"
    by (rule suffix_imp_sublist) (rule suffix_dropWhile)
  ultimately show ?thesis
    by (rule sublist_order.order.trans)
qed

lemma dropWhile_strip: "dropWhile is_space (strip s) = strip s"
proof -
  let ?t = "dropWhile is_space s"
  let ?u = "rev (dropWhile is_space (rev ?t))"
  have "?u = [] \<or> \<not> is_space (hd ?u)"
    by (metis (no_types, lifting) Nil_is_rev_conv dropWhile.simps(1)
        dropWhile_eq_Nil_conv dropWhile_last hd_dropWhile last_rev rev_rev_ident)
  then show ?thesis unfolding strip_def
    using dropWhile_eq_self_iff by blast
qed

lemma dropWhile_rev_strip: "dropWhile is_space (rev (strip s)) = rev (strip s)"
  unfolding strip_def by simp


lemma strip_strip: "strip (strip s) = strip s"
  by (metis dropWhile_strip dropWhile_rev_strip rev_rev_ident strip_def)

lemma str_replace_absent: "old \<noteq> [] \<Longrightarrow> \<not> sublist old s \<Longrightarrow> str_replace old new s = s"
proof (induction s)
  case Nil
  then show ?case by (simp add: str_replace.simps)
next
  case (Cons x xs)
  from Cons.prems have np: "\<not> prefix old (x # xs)" and ns: "\<not> sublist old xs"
    by (auto simp: sublist_Cons_right)
  with Cons show ?case
    by (subst str_replace.simps) simp
qed

lemma lead_replace:
  "length (takeWhile (\<lambda>x. x = c) (str_replace [c, c, c] [] s)) \<le> length (takeWhile (\<lambda>x. x = c) s)"
proof (induction "[c, c, c]" "[] :: nat list" s rule: str_replace.induct)
  case (1 s)
  show ?case
  proof (cases "s = []")
    case True then show ?thesis by (simp add: str_replace.simps)
  next
    case False
    note ne = this
    show ?thesis
    proof (cases "prefix [c, c, c] s")
      case True
      then obtain r where s: "s = c # c # c # r" by (auto simp: prefix_def)
      have "str_replace [c, c, c] [] s = str_replace [c, c, c] [] r"
        by (subst str_replace.simps) (simp add: s)
      moreover have "length (takeWhile (\<lambda>x. x = c) (str_replace [c, c, c] [] r)) \<le> length (takeWhile (\<lambda>x. x = c) r)"
        using "1.hyps"(1)[OF _ ne True] by (simp add: s)
      ultimately show ?thesis by (simp add: s)
    next
      case False
      from ne obtain x xs where s: "s = x # xs" by (cases s) auto
      have eq: "str_replace [c, c, c] [] (x # xs) = x # str_replace [c, c, c] [] xs"
        using False by (subst str_replace.simps) (auto simp: s)
      have "length (takeWhile (\<lambda>x. x = c) (str_replace [c, c, c] [] xs)) \<le> length (takeWhile (\<lambda>x. x = c) xs)"
        using "1.hyps"(2)[OF _ ne False] by (simp add: s)
      then show ?thesis by (simp add: eq s)
    qed
  qed
qed


lemma replace_no_triple: "\<not> sublist [c, c, c] (str_replace [c, c, c] [] s)"
proof (induction "[c, c, c]" "[] :: nat list" s rule: str_replace.induct)
  case (1 s)
  show ?case
  proof (cases "s = []")
    case True then show ?thesis by (simp add: str_replace.simps)
  next
    case False
    note ne = this
    show ?thesis
    proof (cases "prefix [c, c, c] s")
      case True
      then obtain r where s: "s = c # c # c # r" by (auto simp: prefix_def)
      have "str_replace [c, c, c] [] s = str_replace [c, c, c] [] r"
        by (subst str_replace.simps) (simp add: s)
      moreover have "\<not> sublist [c, c, c] (str_replace [c, c, c] [] r)"
        using "1.hyps"(1)[OF _ ne True] by (simp add: s)
      ultimately show ?thesis by simp
    next
      case False
      from ne obtain x xs where s: "s = x # xs" by (cases s) auto
      have eq: "str_replace [c, c, c] [] (x # xs) = x # str_replace [c, c, c] [] xs"
        using False by (subst str_replace.simps) (auto simp: s)
      have ih: "\<not> sublist [c, c, c] (str_replace [c, c, c] [] xs)"
        using "1.hyps"(2)[OF _ ne False] by (simp add: s)
      have "\<not> prefix [c, c, c] (x # str_replace [c, c, c] [] xs)"
      proof
        assume p: "prefix [c, c, c] (x # str_replace [c, c, c] [] xs)"
        then obtain r where x: "x = c" and r: "str_replace [c, c, c] [] xs = c # c # r"
          by (auto simp: prefix_def)
        have "2 \<le> length (takeWhile (\<lambda>x. x = c) (str_replace [c, c, c] [] xs))"
          by (simp add: r)
        then have "2 \<le> length (takeWhile (\<lambda>x. x = c) xs)"
          using lead_replace [of c xs] by linarith
        then obtain t where "xs = c # c # t"
          by (cases xs; cases "tl xs") (auto split: if_splits)
        with False x s show False by simp
      qed
      with ih show ?thesis
        by (simp add: s eq sublist_Cons_right)
    qed
  qed
qed

lemma fence_triple: "fence = [96, 96, 96]"
  by (simp add: fence_def py_def)

lemma fence_in_fence_bash: "sublist fence fence_bash"
  by (rule prefix_imp_sublist) (simp add: fence_def fence_bash_def py_def)

lemma sanitize_no_fence: "\<not> sublist fence (sanitize x)"
proof
  assume "sublist fence (sanitize x)"
  then have "sublist fence (str_replace fence [] (str_replace fence_bash [] (strip x)))"
    unfolding sanitize_def using strip_sublist sublist_order.order.trans by blast
  then show False
    by (simp add: fence_triple replace_no_triple)
qed

lemma sanitize_fixed:
  assumes "\<not> sublist fence y" and "strip y = y"
  shows "sanitize y = y"
proof -
  have "\<not> sublist fence_bash y"
    using assms(1) fence_in_fence_bash sublist_order.order.trans by blast
  then have "str_replace fence_bash [] y = y"
    by (intro str_replace_absent) (simp_all add: fence_bash_def py_def)
  moreover have "str_replace fence [] y = y"
    using assms(1) by (intro str_replace_absent) (simp_all add: fence_triple)
  ultimately show ?thesis
    by (simp add: sanitize_def assms(2))
qed

lemma strip_sanitize: "strip (sanitize x) = sanitize x"
  by (simp add: sanitize_def strip_strip)

lemma str_replace_skip:
  assumes "old \<noteq> []" and "hd old \<notin> set x"
  shows "str_replace old new (x @ s) = x @ str_replace old new s"
  using assms
proof (induction x)
  case Nil
  show ?case by simp
next
  case (Cons a x)
  from Cons.prems have "\<not> prefix old (a # x @ s)"
    by (cases old) auto
  with Cons show ?case
    by (subst str_replace.simps) simp
qed

lemma str_replace_step:
  assumes "old \<noteq> []" and "\<not> prefix old (a # s)"
  shows "str_replace old new (a # s) = a # str_replace old new s"
  using assms by (subst str_replace.simps) simp

lemma str_replace_prefix:
  assumes "old \<noteq> []"
  shows "str_replace old new (old @ s) = new @ str_replace old new s"
  using assms by (subst str_replace.simps) simp

lemma fence_bash_list: "fence_bash = [96, 96, 96, 98, 97, 115, 104]"
  by (simp add: fence_bash_def py_def)

lemma strip_ends:
  assumes "s \<noteq> []" and "\<not> is_space (hd s)" and "\<not> is_space (last s)"
  shows "strip s = s"
proof -
  have "dropWhile is_space s = s"
    using assms(1,2) by (cases s) auto
  moreover have "dropWhile is_space (rev s) = rev s"
    using assms(1,3) by (cases "rev s") (auto simp: last_rev [symmetric] simp del: last_rev)
  ultimately show ?thesis by (simp add: strip_def)
qed

lemma replace_bash_tail: "str_replace fence_bash [] fence = fence"
  by (simp add: fence_bash_list fence_triple str_replace.simps)

lemma replace_fence_tail: "str_replace fence [] fence = []"
  by (simp add: fence_triple str_replace.simps)

lemma sanitize_bash_fence:
  assumes "96 \<notin> set x"
  shows "sanitize (fence_bash @ x @ fence) = strip x"
proof -
  have s: "strip (fence_bash @ x @ fence) = fence_bash @ x @ fence"
    by (rule strip_ends) (simp_all add: fence_bash_list fence_triple is_space_def)
  have "str_replace fence_bash [] (fence_bash @ x @ fence) = str_replace fence_bash [] (x @ fence)"
    using str_replace_prefix [of fence_bash "[]" "x @ fence"] by (simp add: fence_bash_list)
  also have "\<dots> = x @ fence"
    using assms str_replace_skip [of fence_bash x "[]" fence]
    by (simp add: replace_bash_tail) (simp add: fence_bash_list)
  finally have b: "str_replace fence_bash [] (fence_bash @ x @ fence) = x @ fence" .
  have f: "str_replace fence [] (x @ fence) = x"
    using assms str_replace_skip [of fence x "[]" fence]
    by (simp add: replace_fence_tail) (simp add: fence_triple)
  show ?thesis
    by (simp add: sanitize_def s b f)
qed

lemma not_bash_prefix:
  assumes "96 \<notin> set x" and "\<not> prefix (py ''bash'') x"
  shows "\<not> prefix [98, 97, 115, 104] (x @ fence)"
proof
  assume "prefix [98, 97, 115, 104] (x @ fence)"
  then have "prefix [98, 97, 115, 104] x
      \<or> (\<exists>us. [98, 97, 115, 104] = x @ us \<and> prefix us fence)"
    by (simp add: prefix_append)
  moreover have "\<not> prefix [98, 97, 115, 104] x"
    using assms(2) by (simp add: py_def)
  ultimately obtain us where e: "[98, 97, 115, 104] = x @ us" and p: "prefix us fence"
    by blast
  from e assms(2) have n: "us \<noteq> []"
    by (auto simp: py_def)
  from p n have "hd us = 96"
    by (cases us) (auto simp: fence_triple)
  with n have "96 \<in> set us" by (cases us) auto
  then have "(96::nat) \<in> set [98, 97, 115, 104]"
    unfolding e by simp
  then show False by simp
qed

lemma sanitize_bare_fence:
  assumes "96 \<notin> set x" and "\<not> prefix (py ''bash'') x"
  shows "sanitize (fence @ x @ fence) = strip x"
proof -
  have s: "strip (fence @ x @ fence) = fence @ x @ fence"
    by (rule strip_ends) (simp_all add: fence_triple is_space_def)
  have n: "fence_bash \<noteq> []" by (simp add: fence_bash_list)
  have p1: "\<not> prefix fence_bash (96 # 96 # 96 # x @ [96, 96, 96])"
    using not_bash_prefix [OF assms] by (simp add: fence_bash_list fence_triple)
  have p2: "\<not> prefix fence_bash (96 # 96 # x @ [96, 96, 96])"
    using assms(1) by (cases x) (simp_all add: fence_bash_list)
  have p3: "\<not> prefix fence_bash (96 # x @ [96, 96, 96])"
    using assms(1) by (cases x) (simp_all add: fence_bash_list)
  have t: "str_replace fence_bash [] (x @ [96, 96, 96]) = x @ [96, 96, 96]"
    using assms(1) str_replace_skip [of fence_bash x "[]" fence] replace_bash_tail
    by (simp add: fence_triple) (simp add: fence_bash_list)
  have "str_replace fence_bash [] (96 # 96 # 96 # x @ [96, 96, 96]) =
        96 # 96 # 96 # x @ [96, 96, 96]"
    by (simp only: str_replace_step [OF n p1] str_replace_step [OF n p2]
        str_replace_step [OF n p3] t)
  then have b: "str_replace fence_bash [] (fence @ x @ fence) = fence @ x @ fence"
    by (simp add: fence_triple)
  have "str_replace fence [] (fence @ x @ fence) = str_replace fence [] (x @ fence)"
    using str_replace_prefix [of fence "[]" "x @ fence"] by (simp add: fence_triple)
  also have "\<dots> = x"
    using assms(1) str_replace_skip [of fence x "[]" fence]
    by (simp add: replace_fence_tail) (simp add: fence_triple)
  finally have f: "str_replace fence [] (fence @ x @ fence) = x" .
  show ?thesis
    by (simp add: sanitize_def s b f)
qed

lemma sanitize_no_fences:
  assumes "\<not> sublist fence x"
  shows "sanitize x = strip x"
proof -
  have a: "\<not> sublist fence (strip x)"
    using assms strip_sublist sublist_order.order.trans by blast
  have "sanitize (strip x) = sanitize x"
    by (simp add: sanitize_def strip_strip)
  then show ?thesis
    using sanitize_fixed [OF a strip_strip] by simp
qed

text \<open>
  Claim C5 as stated fails for the tags: only the tag \<open>bash\<close> is removed with the fence.
  On \<open>```sh\nls -la\n```\<close> the two fences are removed and the tag stays in the command.
\<close>

theorem sanitize_other_tag_kept:
  "sanitize (py ''```sh\<newline>ls -la\<newline>```'') = py ''sh\<newline>ls -la''
   \<and> sanitize (py ''```sh\<newline>ls -la\<newline>```'') \<noteq> py ''ls -la''"
  by (simp add: sanitize_def py_def fence_def fence_bash_def strip_def is_space_def
      str_replace.simps)

text \<open>
  Claim C5, amended. The sanitizer is a total function on strings and is idempotent. Its
  result is trimmed and contains no fence \<open>```\<close>. A text without a fence is only trimmed.
  For every text \<open>y\<close> without a backquote, \<open>y\<close> between an opening fence tagged \<open>bash\<close> and
  a closing fence gives \<open>y\<close> trimmed, and so does \<open>y\<close> between two bare fences when it
  does not begin with \<open>bash\<close>. On \<open>```bash\nls -la\n```\<close>, and on the same text without
  the tag, the result is \<open>ls -la\<close>.
\<close>

theorem sanitize_idempotent_and_strips_fences:
  "sanitize (sanitize x) = sanitize x
   \<and> strip (sanitize x) = sanitize x
   \<and> \<not> sublist (py ''```'') (sanitize x)
   \<and> (\<not> sublist (py ''```'') x \<longrightarrow> sanitize x = strip x)
   \<and> (96 \<notin> set y \<longrightarrow> sanitize (py ''```bash'' @ y @ py ''```'') = strip y)
   \<and> (96 \<notin> set y \<and> \<not> prefix (py ''bash'') y \<longrightarrow>
        sanitize (py ''```'' @ y @ py ''```'') = strip y)
   \<and> sanitize (py ''```bash\<newline>ls -la\<newline>```'') = py ''ls -la''
   \<and> sanitize (py ''```\<newline>ls -la\<newline>```'') = py ''ls -la''"
proof (intro conjI impI)
  show "sanitize (sanitize x) = sanitize x"
    by (rule sanitize_fixed) (rule sanitize_no_fence, rule strip_sanitize)
  show "strip (sanitize x) = sanitize x"
    by (rule strip_sanitize)
  show "\<not> sublist (py ''```'') (sanitize x)"
    using sanitize_no_fence [of x] by (simp add: fence_def)
  show "sanitize x = strip x" if "\<not> sublist (py ''```'') x"
    using that sanitize_no_fences [of x] by (simp add: fence_def)
  show "sanitize (py ''```bash'' @ y @ py ''```'') = strip y" if "96 \<notin> set y"
    using that sanitize_bash_fence [of y] by (simp add: fence_def fence_bash_def)
  show "sanitize (py ''```'' @ y @ py ''```'') = strip y"
    if "96 \<notin> set y \<and> \<not> prefix (py ''bash'') y"
    using that sanitize_bare_fence [of y] by (simp add: fence_def)
  show "sanitize (py ''```bash\<newline>ls -la\<newline>```'') = py ''ls -la''"
    by (simp add: sanitize_def py_def fence_def fence_bash_def strip_def is_space_def
        str_replace.simps)
  show "sanitize (py ''```\<newline>ls -la\<newline>```'') = py ''ls -la''"
    by (simp add: sanitize_def py_def fence_def fence_bash_def strip_def is_space_def
        str_replace.simps)
qed


text \<open>
  The theorem at a text with single backquotes and no fence, and at a command between
  fences.
\<close>

theorem sanitize_idempotent_and_strips_fences_witness:
  "\<not> sublist (py ''```'') (py '' ls `pwd` '')
   \<and> sanitize (py '' ls `pwd` '') = py ''ls `pwd`''
   \<and> 96 \<notin> set (py ''\<newline>find . \<newline>'')
   \<and> \<not> prefix (py ''bash'') (py ''\<newline>find . \<newline>'')
   \<and> sanitize (py ''```bash'' @ py ''\<newline>find . \<newline>'' @ py ''```'') = py ''find .''
   \<and> sanitize (py ''```'' @ py ''\<newline>find . \<newline>'' @ py ''```'') = py ''find .''"
proof -
  have a: "\<not> sublist (py ''```'') (py '' ls `pwd` '')"
    by (simp add: py_def sublist_Cons_right)
  have b: "96 \<notin> set (py ''\<newline>find . \<newline>'')"
    by (simp add: py_def)
  have c: "\<not> prefix (py ''bash'') (py ''\<newline>find . \<newline>'')"
    by (simp add: py_def)
  have s1: "strip (py '' ls `pwd` '') = py ''ls `pwd`''"
    by (simp add: strip_def py_def is_space_def)
  have s2: "strip (py ''\<newline>find . \<newline>'') = py ''find .''"
    by (simp add: strip_def py_def is_space_def)
  show ?thesis
    using sanitize_idempotent_and_strips_fences [where x = "py '' ls `pwd` ''"
        and y = "py ''\<newline>find . \<newline>''"] a b c s1 s2
    by simp
qed

section \<open>Properties of the retry loop\<close>

lemma jitter_range: "0 \<le> jitter clk n \<and> jitter clk n < 1 / 2"
proof -
  define x where "x = clk n * 2"
  have "of_int \<lfloor>x\<rfloor> \<le> x" and "x < of_int \<lfloor>x\<rfloor> + 1"
    by linarith+
  then show ?thesis
    by (simp add: jitter_def py_mod_def x_def field_simps)
qed

lemma validation_not_throttling: "py ''ValidationException'' \<notin> set throttling_codes"
  by (simp add: throttling_codes_def py_def)

lemma retry_loop_throttled:
  assumes "throttled (b n)" and "n < max_retries"
  shows "retry_loop b clk (n # rest) tr =
         retry_loop b clk rest (tr\<lparr>calls := calls tr + 1, sleeps := sleeps tr @ [throttle_delay clk n]\<rparr>)"
  using assms by (auto simp: throttled_def Let_def split: outcome.splits exn.splits)

lemma retry_loop_returns:
  "b n = Returns r \<Longrightarrow> retry_loop b clk (n # rest) tr = (Inr r, tr\<lparr>calls := calls tr + 1\<rparr>)"
  by (simp add: Let_def)

lemma retry_loop_validation:
  assumes "b n = Raises (ClientError (py ''ValidationException'') msg)"
  shows "retry_loop b clk (n # rest) tr =
         (Inl (ClientError (py ''ValidationException'') msg), tr\<lparr>calls := calls tr + 1\<rparr>)"
  using assms validation_not_throttling by (simp add: Let_def)

lemma retry_loop_other:
  assumes "other_client_error (b n)" and "n < max_retries"
  shows "retry_loop b clk (n # rest) tr =
         retry_loop b clk rest (tr\<lparr>calls := calls tr + 1, sleeps := sleeps tr @ [other_delay n]\<rparr>)"
  using assms by (auto simp: other_client_error_def Let_def split: outcome.splits exn.splits)

lemma retry_loop_propagates:
  assumes "b n = Raises (PyException c)"
  shows "retry_loop b clk (n # rest) tr = (Inl (PyException c), tr\<lparr>calls := calls tr + 1\<rparr>)"
  using assms by (simp add: Let_def)

lemma retry_loop_calls: "calls (snd (retry_loop b clk xs tr)) \<le> calls tr + length xs"
proof (induction xs arbitrary: tr)
  case Nil
  then show ?case by simp
next
  case (Cons n xs)
  show ?case
  proof (cases "attempt_body b clk n")
    case (Sleep d)
    have "calls (snd (retry_loop b clk xs (tr\<lparr>calls := calls tr + 1, sleeps := sleeps tr @ [d]\<rparr>)))
          \<le> calls (tr\<lparr>calls := calls tr + 1, sleeps := sleeps tr @ [d]\<rparr>) + length xs"
      by (rule Cons.IH)
    with Sleep show ?thesis by (simp add: Let_def del: attempt_body.simps)
  qed (simp_all add: Let_def del: attempt_body.simps)
qed

lemma attempts_list: "[0..<max_retries + 1] = [0, 1, 2, 3, 4, 5]"
  by (simp add: max_retries_def upt_rec)

text \<open>
  Claim C1. When attempt \<open>n\<close> fails with one of the throttling codes and \<open>n < max_retries\<close>
  (which is 5), the loop sleeps \<open>base_delay * 2 ^ n + jitter\<close>, with \<open>base_delay = 2\<close> and
  the jitter in \<open>[0, 1/2)\<close>, and goes on with the remaining attempts. For a backend that is
  throttled on attempts 0, 1 and 2 and answers on attempt 3, the loop returns the answer
  after exactly 4 calls, having slept three times, and the delays without their jitter are
  in non-decreasing order.
\<close>

theorem throttled_backoff:
  "(throttled (b n) \<and> n < max_retries \<longrightarrow>
      retry_loop b clk (n # rest) tr =
        retry_loop b clk rest
          (tr\<lparr>calls := calls tr + 1,
             sleeps := sleeps tr @ [base_delay * 2 ^ n + jitter clk n]\<rparr>)
      \<and> base_delay = 2 \<and> max_retries = 5 \<and> 0 \<le> jitter clk n \<and> jitter clk n < 1 / 2)
   \<and> (throttled (b 0) \<and> throttled (b 1) \<and> throttled (b 2) \<and> b 3 = Returns r \<longrightarrow>
      invoke b clk =
        (Inr r, \<lparr>calls = 4, sleeps = map (\<lambda>n. base_delay * 2 ^ n + jitter clk n) [0, 1, 2]\<rparr>)
      \<and> sorted (map (\<lambda>n. base_delay * 2 ^ n) [0, 1, 2 :: nat]))"
proof (intro conjI impI)
  assume "throttled (b n) \<and> n < max_retries"
  then show "retry_loop b clk (n # rest) tr =
        retry_loop b clk rest
          (tr\<lparr>calls := calls tr + 1,
             sleeps := sleeps tr @ [base_delay * 2 ^ n + jitter clk n]\<rparr>)"
    using retry_loop_throttled [of b n clk rest tr] by (simp add: throttle_delay_def)
next
  show "base_delay = 2" by (simp add: base_delay_def)
  show "max_retries = 5" by (simp add: max_retries_def)
  show "0 \<le> jitter clk n" "jitter clk n < 1 / 2" using jitter_range by auto
next
  assume a: "throttled (b 0) \<and> throttled (b 1) \<and> throttled (b 2) \<and> b 3 = Returns r"
  have m: "(0::nat) < max_retries" "1 < max_retries" "2 < max_retries"
    by (simp_all add: max_retries_def)
  show "invoke b clk =
        (Inr r, \<lparr>calls = 4, sleeps = map (\<lambda>n. base_delay * 2 ^ n + jitter clk n) [0, 1, 2]\<rparr>)"
    unfolding invoke_def attempts_list
    using a m
    by (simp add: retry_loop_throttled retry_loop_returns throttle_delay_def no_trace_def
          del: retry_loop.simps)
next
  show "sorted (map (\<lambda>n. base_delay * 2 ^ n) [0, 1, 2 :: nat])"
    by (simp add: base_delay_def)
qed


lemma stub_jitter: "jitter stub_clock n = 1 / 4"
proof -
  have "\<lfloor>7 / 2 :: rat\<rfloor> = 3" by linarith
  then show ?thesis
    by (simp add: jitter_def py_mod_def stub_clock_def)
qed

text \<open>The theorem at the stub that is throttled three times, with jitter \<open>1/4\<close>.\<close>

theorem throttled_backoff_witness:
  "throttled (stub_throttled_thrice 1) \<and> 1 < max_retries
   \<and> retry_loop stub_throttled_thrice stub_clock [1, 2] no_trace =
       retry_loop stub_throttled_thrice stub_clock [2] \<lparr>calls = 1, sleeps = [4 + 1 / 4]\<rparr>
   \<and> invoke stub_throttled_thrice stub_clock =
       (Inr (py ''ok''), \<lparr>calls = 4, sleeps = [2 + 1 / 4, 4 + 1 / 4, 8 + 1 / 4]\<rparr>)"
proof -
  have t: "throttled (stub_throttled_thrice 0)" "throttled (stub_throttled_thrice 1)"
    "throttled (stub_throttled_thrice 2)"
    by (simp_all add: throttled_def stub_throttled_thrice_def throttling_codes_def)
  have r: "stub_throttled_thrice 3 = Returns (py ''ok'')"
    by (simp add: stub_throttled_thrice_def)
  have m: "1 < max_retries" by (simp add: max_retries_def)
  show ?thesis
    using throttled_backoff [of stub_throttled_thrice 1 stub_clock "[2]" no_trace "py ''ok''"]
      t r m
    by (simp add: stub_jitter base_delay_def no_trace_def del: retry_loop.simps)
qed

text \<open>
  Claim C2. When an attempt fails with \<open>ValidationException\<close> the loop re-raises at once,
  whatever attempts remain: it has called the backend once more and slept no more. When
  this is attempt 0, the whole loop makes exactly one call and no sleep and fails with
  that validation error, and \<open>generate_shell_command\<close> returns \<open>None\<close>.
\<close>

theorem validation_error_not_retried:
  assumes "b n = Raises (ClientError (py ''ValidationException'') msg)"
  shows "retry_loop b clk (n # rest) tr =
           (Inl (ClientError (py ''ValidationException'') msg), tr\<lparr>calls := calls tr + 1\<rparr>)
         \<and> (n = 0 \<longrightarrow>
              invoke b clk =
                (Inl (ClientError (py ''ValidationException'') msg), \<lparr>calls = 1, sleeps = []\<rparr>)
              \<and> generate_shell_command ld b clk query (JObj ctx) =
                (Inr None, \<lparr>calls = 1, sleeps = []\<rparr>))"
proof (intro conjI impI)
  show "retry_loop b clk (n # rest) tr =
           (Inl (ClientError (py ''ValidationException'') msg), tr\<lparr>calls := calls tr + 1\<rparr>)"
    using assms by (rule retry_loop_validation)
next
  assume "n = 0"
  with assms have b0: "b 0 = Raises (ClientError (py ''ValidationException'') msg)" by simp
  show inv: "invoke b clk =
      (Inl (ClientError (py ''ValidationException'') msg), \<lparr>calls = 1, sleeps = []\<rparr>)"
    unfolding invoke_def attempts_list
    by (simp add: retry_loop_validation [where b = b and n = 0, OF b0] no_trace_def
          del: retry_loop.simps)
  show "generate_shell_command ld b clk query (JObj ctx) = (Inr None, \<lparr>calls = 1, sleeps = []\<rparr>)"
    by (simp add: generate_shell_command_def try_generate_def inv)
qed

text \<open>The theorem at the stub that rejects every request.\<close>

theorem validation_error_not_retried_witness:
  "stub_invalid 0 = Raises (ClientError (py ''ValidationException'') (Some (py ''bad input'')))
   \<and> invoke stub_invalid stub_clock =
       (Inl (ClientError (py ''ValidationException'') (Some (py ''bad input''))),
        \<lparr>calls = 1, sleeps = []\<rparr>)
   \<and> generate_shell_command (\<lambda>s. None) stub_invalid stub_clock (py ''list files'') (JObj []) =
       (Inr None, \<lparr>calls = 1, sleeps = []\<rparr>)"
proof -
  have h: "stub_invalid 0 = Raises (ClientError (py ''ValidationException'') (Some (py ''bad input'')))"
    by (simp add: stub_invalid_def)
  show ?thesis
    using validation_error_not_retried [where b = stub_invalid and n = 0 and clk = stub_clock
        and rest = "[]" and tr = no_trace and ld = "\<lambda>s. None" and query = "py ''list files''"
        and ctx = "[]", OF h] h
    by simp
qed

text \<open>
  Claim C3 as stated fails: a failure that is neither throttling nor a validation error,
  but is not a \<open>ClientError\<close> either (here a read timeout of the HTTP client), is not
  retried. One call, no sleep.
\<close>

theorem unclassified_exception_not_retried:
  "\<not> throttled (stub_timeout 0) \<and> \<not> validation_error (stub_timeout 0)
   \<and> invoke stub_timeout stub_clock =
       (Inl (PyException ''ReadTimeoutError''), \<lparr>calls = 1, sleeps = []\<rparr>)"
  unfolding invoke_def attempts_list
  by (simp add: throttled_def validation_error_def stub_timeout_def no_trace_def)

lemma retry_loop_last:
  assumes "b n = Raises (ClientError code msg)" and "\<not> n < max_retries"
  shows "retry_loop b clk (n # rest) tr = (Inl (ClientError code msg), tr\<lparr>calls := calls tr + 1\<rparr>)"
  using assms by (simp add: Let_def)

text \<open>
  Claim C3, amended. A \<open>ClientError\<close> whose code is neither a throttling code nor
  \<open>ValidationException\<close> is retried after a sleep of exactly \<open>1 + n / 2\<close> after failed
  attempt \<open>n\<close>, as long as \<open>n < max_retries = 5\<close>; an exception that is not a
  \<open>ClientError\<close> leaves the loop at once, without sleep. When all six attempts fail with
  such a \<open>ClientError\<close>, the loop has slept 1, 1.5, 2, 2.5 and 3 and fails with the last
  error. Whatever the backend does, it is called at most 6 times.
\<close>

theorem other_errors_linear_backoff:
  "(other_client_error (b n) \<and> n < max_retries \<longrightarrow>
      retry_loop b clk (n # rest) tr =
        retry_loop b clk rest
          (tr\<lparr>calls := calls tr + 1, sleeps := sleeps tr @ [1 + of_nat n * (1 / 2)]\<rparr>))
   \<and> (b n = Raises (PyException c) \<longrightarrow>
      retry_loop b clk (n # rest) tr = (Inl (PyException c), tr\<lparr>calls := calls tr + 1\<rparr>))
   \<and> ((\<forall>k \<le> 5. other_client_error (b k)) \<longrightarrow>
      (\<exists>e. b 5 = Raises e
         \<and> invoke b clk = (Inl e, \<lparr>calls = 6, sleeps = [1, 3 / 2, 2, 5 / 2, 3]\<rparr>)))
   \<and> max_retries = 5 \<and> calls (snd (invoke b clk)) \<le> 6"
proof (intro conjI impI)
  assume "other_client_error (b n) \<and> n < max_retries"
  then show "retry_loop b clk (n # rest) tr =
        retry_loop b clk rest
          (tr\<lparr>calls := calls tr + 1, sleeps := sleeps tr @ [1 + of_nat n * (1 / 2)]\<rparr>)"
    using retry_loop_other [of b n clk rest tr] by (simp add: other_delay_def)
next
  assume "b n = Raises (PyException c)"
  then show "retry_loop b clk (n # rest) tr = (Inl (PyException c), tr\<lparr>calls := calls tr + 1\<rparr>)"
    by (rule retry_loop_propagates)
next
  assume a: "\<forall>k \<le> 5. other_client_error (b k)"
  then have o: "other_client_error (b 0)" "other_client_error (b 1)" "other_client_error (b 2)"
    "other_client_error (b 3)" "other_client_error (b 4)" "other_client_error (b 5)"
    by simp_all
  from o(6) obtain code msg where b5: "b 5 = Raises (ClientError code msg)"
    by (auto simp: other_client_error_def split: outcome.splits exn.splits)
  have m: "(0::nat) < max_retries" "1 < max_retries" "2 < max_retries" "3 < max_retries"
    "4 < max_retries" "\<not> 5 < max_retries"
    by (simp_all add: max_retries_def)
  have "invoke b clk = (Inl (ClientError code msg), \<lparr>calls = 6, sleeps = [1, 3 / 2, 2, 5 / 2, 3]\<rparr>)"
    unfolding invoke_def attempts_list
    using o m
    by (simp add: retry_loop_other retry_loop_last [where b = b and n = 5, OF b5] other_delay_def no_trace_def
          del: retry_loop.simps)
  with b5 show "\<exists>e. b 5 = Raises e
         \<and> invoke b clk = (Inl e, \<lparr>calls = 6, sleeps = [1, 3 / 2, 2, 5 / 2, 3]\<rparr>)"
    by blast
next
  show "max_retries = 5" by (simp add: max_retries_def)
  show "calls (snd (invoke b clk)) \<le> 6"
    using retry_loop_calls [of b clk "[0..<max_retries + 1]" no_trace]
    by (simp add: invoke_def no_trace_def max_retries_def)
qed

text \<open>The theorem at the stub that always fails with a server error, and at the timeout.\<close>

theorem other_errors_linear_backoff_witness:
  "other_client_error (stub_server_error 2) \<and> 2 < max_retries
   \<and> retry_loop stub_server_error stub_clock [2, 3] no_trace =
       retry_loop stub_server_error stub_clock [3] \<lparr>calls = 1, sleeps = [2]\<rparr>
   \<and> invoke stub_server_error stub_clock =
       (Inl (ClientError (py ''InternalServerException'') None),
        \<lparr>calls = 6, sleeps = [1, 3 / 2, 2, 5 / 2, 3]\<rparr>)
   \<and> stub_timeout 0 = Raises (PyException ''ReadTimeoutError'')
   \<and> retry_loop stub_timeout stub_clock [0, 1] no_trace =
       (Inl (PyException ''ReadTimeoutError''), \<lparr>calls = 1, sleeps = []\<rparr>)"
proof -
  have o: "\<And>k. other_client_error (stub_server_error k)"
    by (simp add: other_client_error_def stub_server_error_def throttling_codes_def py_def)
  have m: "2 < max_retries" by (simp add: max_retries_def)
  have t: "stub_timeout 0 = Raises (PyException ''ReadTimeoutError'')"
    by (simp add: stub_timeout_def)
  have s: "stub_server_error 5 = Raises (ClientError (py ''InternalServerException'') None)"
    by (simp add: stub_server_error_def)
  show ?thesis
    using other_errors_linear_backoff [where b = stub_server_error and n = 2
        and clk = stub_clock and rest = "[3]" and tr = no_trace]
      other_errors_linear_backoff [where b = stub_timeout and n = 0
        and c = "''ReadTimeoutError''" and clk = stub_clock and rest = "[1]" and tr = no_trace]
      o m t s
    by (auto simp: no_trace_def simp del: retry_loop.simps)
qed

section \<open>Properties of the request handler\<close>

lemma strip_blank: "strip q = [] \<longleftrightarrow> (\<forall>c \<in> set q. is_space c)"
proof
  assume "strip q = []"
  then have a: "\<forall>x \<in> set (dropWhile is_space q). is_space x"
    by (simp add: strip_def dropWhile_eq_Nil_conv)
  have "dropWhile is_space q = []"
  proof (rule ccontr)
    assume n: "dropWhile is_space q \<noteq> []"
    then have "\<not> is_space (hd (dropWhile is_space q))" by (rule hd_dropWhile)
    moreover have "hd (dropWhile is_space q) \<in> set (dropWhile is_space q)"
      using n by (rule hd_in_set)
    ultimately show False using a by blast
  qed
  then show "\<forall>c \<in> set q. is_space c"
    by (simp add: dropWhile_eq_Nil_conv)
next
  assume "\<forall>c \<in> set q. is_space c"
  then have d: "dropWhile is_space q = []"
    by (simp add: dropWhile_eq_Nil_conv)
  show "strip q = []"
    unfolding strip_def d by simp
qed








lemma handler_shapes:
  "fst (lambda_handler ld b clk event) = error_response 400 ''Query parameter is required''
   \<or> fst (lambda_handler ld b clk event) = error_response 500 ''Failed to generate shell command''
   \<or> fst (lambda_handler ld b clk event) = error_response 500 ''Internal server error''
   \<or> (\<exists>command query. fst (lambda_handler ld b clk event) = success_response command query)"
  by (auto simp: lambda_handler_def handler_try_def split: sum.splits option.splits prod.splits)

lemma handler_valid:
  assumes "request_body ld event = Inr bdy" and "get_query bdy = Inr query" and "query \<noteq> []"
    and "get_context bdy = Inr (JObj ctx)"
  shows "fst (lambda_handler ld b clk event) =
         (case fst (try_generate ld b clk) of
            Inl e \<Rightarrow> error_response 500 ''Failed to generate shell command''
          | Inr command \<Rightarrow>
              if command = [] then error_response 500 ''Failed to generate shell command''
              else success_response command query)"
  using assms
  by (auto simp: lambda_handler_def handler_try_def generate_shell_command_def
      split: prod.splits sum.splits)

lemma try_generate_cases:
  "fst (try_generate ld b clk) =
     (case fst (invoke b clk) of
        Inl e \<Rightarrow> Inl e
      | Inr raw \<Rightarrow>
          (case ld raw of
             None \<Rightarrow> Inl (PyException ''JSONDecodeError'')
           | Some v \<Rightarrow> (case extract_text v of Inl e \<Rightarrow> Inl e | Inr t \<Rightarrow> Inr (sanitize t))))"
  by (auto simp: try_generate_def split: prod.splits sum.splits option.splits)

lemma invoke_first_answer:
  "b 0 = Returns r \<Longrightarrow> invoke b clk = (Inr r, \<lparr>calls = 1, sleeps = []\<rparr>)"
  unfolding invoke_def attempts_list
  by (simp add: retry_loop_returns no_trace_def del: retry_loop.simps)

text \<open>
  Claim C8. On a request with a query and a context that is absent or an object, every
  failure of the command generation is answered with status 500 and the body
  \<open>{"error": "Failed to generate shell command"}\<close>: the retry loop fails with whatever
  exception, the backend's answer does not parse, the completion text cannot be
  extracted from it, or the sanitized command is empty. Only when none of these happens
  is the answer 200, and then its body holds the sanitized command and the query. Every
  exception that leaves the \<open>try\<close> block of the handler (the request body does not parse,
  the body is not an object, the query is not a string, the context is not an object) is
  answered with status 500 and the body \<open>{"error": "Internal server error"}\<close>. The
  handler always returns a response, every response whose status is neither 200 nor 400
  is one of these two, and the two bodies are constants in which nothing of the error
  appears. Only exceptions derived from \<open>Exception\<close> are modelled.
\<close>

theorem server_errors_are_generic:
  "(request_body ld event = Inr bdy \<and> get_query bdy = Inr query \<and> query \<noteq> []
      \<and> get_context bdy = Inr (JObj ctx) \<longrightarrow>
      (fst (invoke b clk) = Inl e \<longrightarrow>
         fst (lambda_handler ld b clk event) =
           error_response 500 ''Failed to generate shell command'')
      \<and> (fst (invoke b clk) = Inr raw \<and> ld raw = None \<longrightarrow>
         fst (lambda_handler ld b clk event) =
           error_response 500 ''Failed to generate shell command'')
      \<and> (fst (invoke b clk) = Inr raw \<and> ld raw = Some v \<and> extract_text v = Inl e \<longrightarrow>
         fst (lambda_handler ld b clk event) =
           error_response 500 ''Failed to generate shell command'')
      \<and> (fst (invoke b clk) = Inr raw \<and> ld raw = Some v \<and> extract_text v = Inr t
           \<and> sanitize t = [] \<longrightarrow>
         fst (lambda_handler ld b clk event) =
           error_response 500 ''Failed to generate shell command'')
      \<and> (fst (invoke b clk) = Inr raw \<and> ld raw = Some v \<and> extract_text v = Inr t
           \<and> sanitize t \<noteq> [] \<longrightarrow>
         fst (lambda_handler ld b clk event) =
           \<lparr>statusCode = 200, headers = json_headers,
            body = json_dumps [(py ''command'', sanitize t), (py ''query'', query)]\<rparr>))
   \<and> (fst (handler_try ld b clk event) = Inl e' \<longrightarrow>
      fst (lambda_handler ld b clk event) = error_response 500 ''Internal server error'')
   \<and> (request_body ld event = Inl e' \<longrightarrow>
      fst (lambda_handler ld b clk event) = error_response 500 ''Internal server error'')
   \<and> (request_body ld event = Inr bdy \<and> get_query bdy = Inl e' \<longrightarrow>
      fst (lambda_handler ld b clk event) = error_response 500 ''Internal server error'')
   \<and> (request_body ld event = Inr bdy \<and> get_query bdy = Inr query \<and> query \<noteq> []
      \<and> get_context bdy = Inr c \<and> (\<forall>ctx. c \<noteq> JObj ctx) \<longrightarrow>
      fst (lambda_handler ld b clk event) = error_response 500 ''Internal server error'')
   \<and> (statusCode (fst (lambda_handler ld b clk event)) = 200
      \<or> statusCode (fst (lambda_handler ld b clk event)) = 400
      \<or> fst (lambda_handler ld b clk event) =
          error_response 500 ''Failed to generate shell command''
      \<or> fst (lambda_handler ld b clk event) = error_response 500 ''Internal server error'')
   \<and> error_response 500 ''Failed to generate shell command'' =
       \<lparr>statusCode = 500, headers = json_headers,
        body = json_dumps [(py ''error'', py ''Failed to generate shell command'')]\<rparr>
   \<and> error_response 500 ''Internal server error'' =
       \<lparr>statusCode = 500, headers = json_headers,
        body = json_dumps [(py ''error'', py ''Internal server error'')]\<rparr>"
proof (intro conjI impI)
  assume v: "request_body ld event = Inr bdy \<and> get_query bdy = Inr query \<and> query \<noteq> []
      \<and> get_context bdy = Inr (JObj ctx)"
  then have h: "fst (lambda_handler ld b clk event) =
         (case fst (try_generate ld b clk) of
            Inl e \<Rightarrow> error_response 500 ''Failed to generate shell command''
          | Inr command \<Rightarrow>
              if command = [] then error_response 500 ''Failed to generate shell command''
              else success_response command query)"
    using handler_valid by blast
  show "fst (lambda_handler ld b clk event) =
           error_response 500 ''Failed to generate shell command''"
    if "fst (invoke b clk) = Inl e"
    using that by (simp add: h try_generate_cases)
  show "fst (lambda_handler ld b clk event) =
           error_response 500 ''Failed to generate shell command''"
    if "fst (invoke b clk) = Inr raw \<and> ld raw = None"
    using that by (simp add: h try_generate_cases)
  show "fst (lambda_handler ld b clk event) =
           error_response 500 ''Failed to generate shell command''"
    if "fst (invoke b clk) = Inr raw \<and> ld raw = Some v \<and> extract_text v = Inl e"
    using that by (simp add: h try_generate_cases)
  show "fst (lambda_handler ld b clk event) =
           error_response 500 ''Failed to generate shell command''"
    if "fst (invoke b clk) = Inr raw \<and> ld raw = Some v \<and> extract_text v = Inr t
           \<and> sanitize t = []"
    using that by (simp add: h try_generate_cases)
  show "fst (lambda_handler ld b clk event) =
           \<lparr>statusCode = 200, headers = json_headers,
            body = json_dumps [(py ''command'', sanitize t), (py ''query'', query)]\<rparr>"
    if "fst (invoke b clk) = Inr raw \<and> ld raw = Some v \<and> extract_text v = Inr t
           \<and> sanitize t \<noteq> []"
    using that by (simp add: h try_generate_cases success_response_def)
next
  assume "fst (handler_try ld b clk event) = Inl e'"
  then show "fst (lambda_handler ld b clk event) = error_response 500 ''Internal server error''"
    by (auto simp: lambda_handler_def split: prod.splits)
next
  assume "request_body ld event = Inl e'"
  then show "fst (lambda_handler ld b clk event) = error_response 500 ''Internal server error''"
    by (simp add: lambda_handler_def handler_try_def)
next
  assume "request_body ld event = Inr bdy \<and> get_query bdy = Inl e'"
  then show "fst (lambda_handler ld b clk event) = error_response 500 ''Internal server error''"
    by (simp add: lambda_handler_def handler_try_def)
next
  assume "request_body ld event = Inr bdy \<and> get_query bdy = Inr query \<and> query \<noteq> []
      \<and> get_context bdy = Inr c \<and> (\<forall>ctx. c \<noteq> JObj ctx)"
  then show "fst (lambda_handler ld b clk event) = error_response 500 ''Internal server error''"
    by (cases c) (simp_all add: lambda_handler_def handler_try_def generate_shell_command_def)
next
  show "statusCode (fst (lambda_handler ld b clk event)) = 200
      \<or> statusCode (fst (lambda_handler ld b clk event)) = 400
      \<or> fst (lambda_handler ld b clk event) =
          error_response 500 ''Failed to generate shell command''
      \<or> fst (lambda_handler ld b clk event) = error_response 500 ''Internal server error''"
    using handler_shapes [of ld b clk event]
    by (auto simp: error_response_def success_response_def)
next
  show "error_response 500 ''Failed to generate shell command'' =
       \<lparr>statusCode = 500, headers = json_headers,
        body = json_dumps [(py ''error'', py ''Failed to generate shell command'')]\<rparr>"
    by (simp add: error_response_def)
  show "error_response 500 ''Internal server error'' =
       \<lparr>statusCode = 500, headers = json_headers,
        body = json_dumps [(py ''error'', py ''Internal server error'')]\<rparr>"
    by (simp add: error_response_def)
qed


text \<open>
  The theorem at a backend that rejects the request, at an answer that does not parse,
  at an answer without a completion, at a fenced completion, and at an event whose body
  is \<open>null\<close>.
\<close>

theorem server_errors_are_generic_witness:
  "request_body loads_fails event_list_files = Inr (JObj event_list_files)
   \<and> get_query (JObj event_list_files) = Inr (py ''list files'')
   \<and> py ''list files'' \<noteq> []
   \<and> get_context (JObj event_list_files) = Inr (JObj [])
   \<and> fst (invoke stub_invalid stub_clock) =
       Inl (ClientError (py ''ValidationException'') (Some (py ''bad input'')))
   \<and> fst (lambda_handler loads_fails stub_invalid stub_clock event_list_files) =
       \<lparr>statusCode = 500, headers = json_headers,
        body = json_dumps [(py ''error'', py ''Failed to generate shell command'')]\<rparr>
   \<and> fst (invoke stub_answer stub_clock) = Inr (py ''raw bytes'')
   \<and> loads_fails (py ''raw bytes'') = None
   \<and> fst (lambda_handler loads_fails stub_answer stub_clock event_list_files) =
       \<lparr>statusCode = 500, headers = json_headers,
        body = json_dumps [(py ''error'', py ''Failed to generate shell command'')]\<rparr>
   \<and> extract_text JNull = Inl (PyException ''TypeError'')
   \<and> fst (lambda_handler loads_null stub_answer stub_clock event_list_files) =
       \<lparr>statusCode = 500, headers = json_headers,
        body = json_dumps [(py ''error'', py ''Failed to generate shell command'')]\<rparr>
   \<and> fst (lambda_handler loads_completion stub_answer stub_clock event_list_files) =
       \<lparr>statusCode = 200, headers = json_headers,
        body = json_dumps [(py ''command'', py ''ls -la''), (py ''query'', py ''list files'')]\<rparr>
   \<and> request_body loads_fails event_null_body = Inr JNull
   \<and> get_query JNull = Inl (PyException ''AttributeError'')
   \<and> fst (lambda_handler loads_fails stub_answer stub_clock event_null_body) =
       \<lparr>statusCode = 500, headers = json_headers,
        body = json_dumps [(py ''error'', py ''Internal server error'')]\<rparr>"
proof -
  have r: "\<And>ld. request_body ld event_list_files = Inr (JObj event_list_files)"
    by (simp add: request_body_def event_list_files_def py_def)
  have q: "get_query (JObj event_list_files) = Inr (py ''list files'')"
    by (simp add: get_query_def event_list_files_def py_def strip_def is_space_def)
  have n: "py ''list files'' \<noteq> []"
    by (simp add: py_def)
  have c: "get_context (JObj event_list_files) = Inr (JObj [])"
    by (simp add: get_context_def event_list_files_def py_def)
  have i: "fst (invoke stub_invalid stub_clock) =
       Inl (ClientError (py ''ValidationException'') (Some (py ''bad input'')))"
    unfolding invoke_def attempts_list
    by (simp add: stub_invalid_def throttling_codes_def py_def)
  have a: "fst (invoke stub_answer stub_clock) = Inr (py ''raw bytes'')"
    by (simp add: invoke_first_answer stub_answer_def)
  have l1: "loads_fails (py ''raw bytes'') = None"
    by (simp add: loads_fails_def)
  have l2: "loads_null (py ''raw bytes'') = Some JNull"
    by (simp add: loads_null_def)
  have x2: "extract_text JNull = Inl (PyException ''TypeError'')"
    by (simp add: extract_text_def)
  have l3: "loads_completion (py ''raw bytes'') =
      Some (JObj [(py ''content'',
                  JArr [JObj [(py ''text'', JStr (py ''```bash\<newline>ls -la\<newline>```''))]])])"
    by (simp add: loads_completion_def)
  have x3: "extract_text (JObj [(py ''content'',
                  JArr [JObj [(py ''text'', JStr (py ''```bash\<newline>ls -la\<newline>```''))]])]) =
      Inr (py ''```bash\<newline>ls -la\<newline>```'')"
    by (simp add: extract_text_def subscript_text_def py_def)
  have s3: "sanitize (py ''```bash\<newline>ls -la\<newline>```'') = py ''ls -la''"
    by (simp add: sanitize_def py_def fence_def fence_bash_def strip_def is_space_def
        str_replace.simps)
  have s3n: "sanitize (py ''```bash\<newline>ls -la\<newline>```'') \<noteq> []"
    by (simp add: s3) (simp add: py_def)
  have nb: "request_body loads_fails event_null_body = Inr JNull"
    by (simp add: request_body_def event_null_body_def)
  have nq: "get_query JNull = Inl (PyException ''AttributeError'')"
    by (simp add: get_query_def)
  note t = server_errors_are_generic [where event = event_list_files
      and bdy = "JObj event_list_files" and query = "py ''list files''" and ctx = "[]"
      and clk = stub_clock and raw = "py ''raw bytes''"]
  show ?thesis
    using t [where ld = loads_fails and b = stub_invalid
        and e = "ClientError (py ''ValidationException'') (Some (py ''bad input''))"]
      t [where ld = loads_fails and b = stub_answer]
      t [where ld = loads_null and b = stub_answer and v = JNull
        and e = "PyException ''TypeError''"]
      t [where ld = loads_completion and b = stub_answer
        and v = "JObj [(py ''content'',
                  JArr [JObj [(py ''text'', JStr (py ''```bash\<newline>ls -la\<newline>```''))]])]"
        and t = "py ''```bash\<newline>ls -la\<newline>```''"]
      server_errors_are_generic [where ld = loads_fails and event = event_null_body
        and bdy = JNull and b = stub_answer and clk = stub_clock
        and e' = "PyException ''AttributeError''"]
      r q n c i a l1 l2 x2 l3 x3 s3 s3n nb nq
    by simp
qed

lemma handler_headers: "headers (fst (lambda_handler ld b clk event)) = json_headers"
  using handler_shapes [of ld b clk event]
  by (auto simp: error_response_def success_response_def)

text \<open>
  Claim C9 fails on the code. \<open>handle_cors_preflight\<close> builds the response the claim
  describes, but the handler never returns it, whatever the event: every response of the
  handler carries the JSON headers. The event of an \<open>OPTIONS\<close> request is answered with
  status 500.
\<close>

theorem preflight_not_dispatched:
  "fst (lambda_handler ld b clk event) \<noteq> handle_cors_preflight
   \<and> lambda_handler ld b clk event_preflight =
       (\<lparr>statusCode = 500, headers = json_headers,
         body = json_dumps [(py ''error'', py ''Internal server error'')]\<rparr>,
        \<lparr>calls = 0, sleeps = []\<rparr>)"
proof
  have "headers handle_cors_preflight \<noteq> json_headers"
    by (simp add: handle_cors_preflight_def json_headers_def)
  then show "fst (lambda_handler ld b clk event) \<noteq> handle_cors_preflight"
    using handler_headers [of ld b clk event] by auto
  show "lambda_handler ld b clk event_preflight =
       (\<lparr>statusCode = 500, headers = json_headers,
         body = json_dumps [(py ''error'', py ''Internal server error'')]\<rparr>,
        \<lparr>calls = 0, sleeps = []\<rparr>)"
    by (simp add: lambda_handler_def handler_try_def request_body_def event_preflight_def
        get_query_def error_response_def no_trace_def py_def)
qed

section \<open>Properties of the command line\<close>

lemma replace_backslash:
  "str_replace [backslash] [backslash, backslash] s =
   concat (map (\<lambda>c. if c = backslash then [backslash, backslash] else [c]) s)"
proof (induction s)
  case Nil
  show ?case by (simp add: str_replace.simps)
next
  case (Cons x xs)
  then show ?case
    by (subst str_replace.simps) simp
qed

lemma main_exit:
  assumes "args \<noteq> []" and "ep \<noteq> None" and "ep \<noteq> Some []"
  shows "main args s ep r sp opr sys =
         (if fst (run r sp opr sys (join_space args) s io0) then 0 else 1,
          snd (run r sp opr sys (join_space args) s io0))"
  using assms by (auto simp: main_def Let_def split: prod.splits)

lemma run_seamless_success:
  assumes "command \<noteq> []"
  shows "run (Result (Some command)) sp opr sys q True w =
         (True, w\<lparr>out := out w @ [str_replace [backslash] [backslash, backslash] command]\<rparr>)"
  using assms by (simp add: run_def query_ai_def print_out_def)

lemma run_seamless_empty:
  assumes "r = Result None \<or> r = Result (Some [])"
  shows "run r sp opr sys q True w = (False, w)"
  using assms by (auto simp: run_def query_ai_def)

lemma query_ai_failure:
  assumes "\<forall>c. r \<noteq> Result c"
  shows "\<exists>d. query_ai r w = (None, w\<lparr>err := err w @ [d]\<rparr>)"
  using assms by (cases r) (auto simp: query_ai_def print_err_def)

lemma run_seamless_transport:
  assumes "\<forall>c. r \<noteq> Result c"
  shows "\<exists>d. run r sp opr sys q True w = (False, w\<lparr>err := err w @ [d]\<rparr>)"
  using query_ai_failure [OF assms, of w] by (auto simp: run_def)

text \<open>
  Claim C6 as stated fails: in seamless mode, when the request to the service fails with
  an HTTP error, \<open>query_ai\<close> writes a diagnostic to standard error before \<open>run\<close> returns
  false.
\<close>

theorem seamless_http_error_prints_diagnostic:
  "run reply_http_error True KeyboardInterrupt system_ok (py ''list files'') True io0 =
     (False, \<lparr>out = [], err = [py ''HTTP Error 500: Internal Server Error''], executed = []\<rparr>)
   \<and> err (snd (run reply_http_error True KeyboardInterrupt system_ok (py ''list files'') True io0))
       \<noteq> []"
  by (simp add: run_def query_ai_def reply_http_error_def print_err_def io0_def py_def)

text \<open>
  Claim C6, amended. In seamless mode, when the service answers with a non-empty command,
  \<open>run\<close> prints exactly that command with every backslash doubled, writes nothing else
  and returns true (exit status 0). When the answer has an empty command or none, \<open>run\<close>
  writes nothing at all and returns false (exit status 1). When the request fails, \<open>run\<close>
  returns false (exit status 1) and nothing is written to standard output, \<open>run\<close> adds no
  message of its own, and the one diagnostic of \<open>query_ai\<close> is on standard error.
\<close>

theorem seamless_mode:
  "(command \<noteq> [] \<longrightarrow>
      run (Result (Some command)) sp opr sys q True w =
        (True, w\<lparr>out := out w @
           [concat (map (\<lambda>c. if c = backslash then [backslash, backslash] else [c]) command)]\<rparr>)
      \<and> (args \<noteq> [] \<and> ep \<noteq> None \<and> ep \<noteq> Some [] \<longrightarrow>
           fst (main args True ep (Result (Some command)) sp opr sys) = 0))
   \<and> (r = Result None \<or> r = Result (Some []) \<longrightarrow>
      run r sp opr sys q True w = (False, w)
      \<and> (args \<noteq> [] \<and> ep \<noteq> None \<and> ep \<noteq> Some [] \<longrightarrow>
           fst (main args True ep r sp opr sys) = 1))
   \<and> ((\<forall>c. r \<noteq> Result c) \<longrightarrow>
      (\<exists>d. run r sp opr sys q True w = (False, w\<lparr>err := err w @ [d]\<rparr>))
      \<and> (args \<noteq> [] \<and> ep \<noteq> None \<and> ep \<noteq> Some [] \<longrightarrow>
           fst (main args True ep r sp opr sys) = 1))"
proof (intro conjI impI)
  assume c: "command \<noteq> []"
  show "run (Result (Some command)) sp opr sys q True w =
        (True, w\<lparr>out := out w @
           [concat (map (\<lambda>c. if c = backslash then [backslash, backslash] else [c]) command)]\<rparr>)"
    using run_seamless_success [OF c] by (simp add: replace_backslash)
  assume "args \<noteq> [] \<and> ep \<noteq> None \<and> ep \<noteq> Some []"
  then show "fst (main args True ep (Result (Some command)) sp opr sys) = 0"
    by (simp add: main_exit run_seamless_success [OF c])
next
  assume e: "r = Result None \<or> r = Result (Some [])"
  show "run r sp opr sys q True w = (False, w)"
    using e by (rule run_seamless_empty)
  assume "args \<noteq> [] \<and> ep \<noteq> None \<and> ep \<noteq> Some []"
  then show "fst (main args True ep r sp opr sys) = 1"
    by (simp add: main_exit run_seamless_empty [OF e])
next
  assume t: "\<forall>c. r \<noteq> Result c"
  show "\<exists>d. run r sp opr sys q True w = (False, w\<lparr>err := err w @ [d]\<rparr>)"
    using t by (rule run_seamless_transport)
  assume a: "args \<noteq> [] \<and> ep \<noteq> None \<and> ep \<noteq> Some []"
  obtain d where "run r sp opr sys (join_space args) True io0 = (False, io0\<lparr>err := err io0 @ [d]\<rparr>)"
    using run_seamless_transport [OF t] by blast
  with a show "fst (main args True ep r sp opr sys) = 1"
    by (simp add: main_exit)
qed


text \<open>The theorem at a command with a backslash, an empty command and an HTTP error.\<close>

theorem seamless_mode_witness:
  "py ''grep a'' @ [backslash] @ py ''b'' \<noteq> []
   \<and> run reply_grep True KeyboardInterrupt system_ok (py ''find a dot b'') True io0 =
       (True, \<lparr>out = [py ''grep a'' @ [backslash, backslash] @ py ''b''], err = [],
              executed = []\<rparr>)
   \<and> fst (main [py ''find'', py ''a''] True some_endpoint reply_grep True KeyboardInterrupt
            system_ok) = 0
   \<and> run (Result (Some [])) True KeyboardInterrupt system_ok (py ''find a dot b'') True io0 =
       (False, io0)
   \<and> fst (main [py ''find'', py ''a''] True some_endpoint (Result (Some [])) True
            KeyboardInterrupt system_ok) = 1
   \<and> fst (main [py ''find'', py ''a''] True some_endpoint reply_http_error True
            KeyboardInterrupt system_ok) = 1"
proof -
  have n: "py ''grep a'' @ [backslash] @ py ''b'' \<noteq> []"
    by (simp add: py_def)
  have a: "[py ''find'', py ''a''] \<noteq> [] \<and> some_endpoint \<noteq> None \<and> some_endpoint \<noteq> Some []"
    by (simp add: some_endpoint_def py_def)
  have h: "\<forall>c. reply_http_error \<noteq> Result c"
    by (simp add: reply_http_error_def)
  show ?thesis
    using seamless_mode [where command = "py ''grep a'' @ [backslash] @ py ''b''"
        and sp = True and opr = KeyboardInterrupt and sys = system_ok
        and q = "py ''find a dot b''" and w = io0 and args = "[py ''find'', py ''a'']"
        and ep = some_endpoint and r = "Result (Some [])"]
      seamless_mode [where command = "py ''grep a'' @ [backslash] @ py ''b''"
        and sp = True and opr = KeyboardInterrupt and sys = system_ok
        and q = "py ''find a dot b''" and w = io0 and args = "[py ''find'', py ''a'']"
        and ep = some_endpoint and r = reply_http_error]
      n a h
    by (simp add: reply_grep_def io0_def py_def backslash_def)
qed

lemma query_ai_keeps:
  "executed (snd (query_ai r w)) = executed w \<and> out (snd (query_ai r w)) = out w"
  by (cases r) (auto simp: query_ai_def print_err_def split: option.splits)

lemma run_generation_failure:
  assumes "fst (query_ai r w) = None \<or> fst (query_ai r w) = Some []"
  shows "fst (run r sp opr sys q s w) = False
         \<and> executed (snd (run r sp opr sys q s w)) = executed w
         \<and> out (snd (run r sp opr sys q s w)) = out w"
  using assms query_ai_keeps [of r w]
  by (cases "query_ai r w") (auto simp: run_def print_err_def)

lemma execute_cancelled:
  assumes "opr = KeyboardInterrupt \<or> opr = EOFError"
  shows "fst (execute_command sp opr sys command w) = False
         \<and> executed (snd (execute_command sp opr sys command w)) = executed w"
  using assms by (auto simp: execute_command_def Let_def print_out_def print_err_def)

lemma execute_blank:
  assumes "\<forall>c \<in> set line. is_space c"
  shows "fst (execute_command sp (Enters line) sys command w) = False
         \<and> executed (snd (execute_command sp (Enters line) sys command w)) = executed w"
proof -
  have "strip line = []" using assms by (simp add: strip_blank)
  then show ?thesis
    by (simp add: execute_command_def Let_def print_out_def print_err_def)
qed

lemma run_interactive:
  assumes "\<And>command w'. executed w' = executed w \<Longrightarrow>
             fst (execute_command sp opr sys command w') = False
             \<and> executed (snd (execute_command sp opr sys command w')) = executed w'"
  shows "fst (run r sp opr sys q False w) = False
         \<and> executed (snd (run r sp opr sys q False w)) = executed w"
proof (cases "fst (query_ai r w) = None \<or> fst (query_ai r w) = Some []")
  case True
  then show ?thesis using run_generation_failure by blast
next
  case False
  then obtain command w1 where q: "query_ai r w = (Some command, w1)" and c: "command \<noteq> []"
    by (cases "query_ai r w") auto
  have e: "executed w1 = executed w"
    using query_ai_keeps [of r w] by (simp add: q)
  let ?w2 = "if sp then print_out (py ''Query: '' @ q) w1 else w1"
  have e2: "executed ?w2 = executed w"
    using e by (simp add: print_out_def)
  have "run r sp opr sys q False w = execute_command sp opr sys command ?w2"
    using c by (simp add: run_def q)
  then show ?thesis
    using assms [OF e2, of command] e2 by simp
qed

text \<open>
  Claim C7 as stated fails: with no query argument the process ends in \<open>parser.error\<close>,
  whose exit status is 2.
\<close>

theorem no_query_exits_with_2:
  "fst (main [] False some_endpoint reply_grep True (Enters (py ''ls'')) system_ok) = 2
   \<and> fst (main [] False some_endpoint reply_grep True (Enters (py ''ls'')) system_ok) \<noteq> 1"
  by (simp add: main_def)

text \<open>
  Claim C7, amended. With no query argument the exit status is 2. With a query it is 0 or
  1, and 0 exactly when the endpoint is set and \<open>run\<close> returns true. A generation failure
  (no command, or an empty one) gives 1, and so does a cancellation at the prompt of the
  interactive mode (\<open>KeyboardInterrupt\<close> or \<open>EOFError\<close>); in both cases no command is
  handed to \<open>os.system\<close>.
\<close>

theorem exit_codes:
  "fst (main [] s ep r sp opr sys) = 2
   \<and> (args \<noteq> [] \<longrightarrow>
        (fst (main args s ep r sp opr sys) = 0 \<or> fst (main args s ep r sp opr sys) = 1)
        \<and> (fst (main args s ep r sp opr sys) = 0 \<longleftrightarrow>
             ep \<noteq> None \<and> ep \<noteq> Some [] \<and> fst (run r sp opr sys (join_space args) s io0)))
   \<and> (args \<noteq> [] \<and> (fst (query_ai r io0) = None \<or> fst (query_ai r io0) = Some []) \<longrightarrow>
        fst (main args s ep r sp opr sys) = 1
        \<and> executed (snd (main args s ep r sp opr sys)) = [])
   \<and> (args \<noteq> [] \<and> \<not> s \<and> (opr = KeyboardInterrupt \<or> opr = EOFError) \<longrightarrow>
        fst (main args s ep r sp opr sys) = 1
        \<and> executed (snd (main args s ep r sp opr sys)) = [])"
proof (intro conjI impI)
  show "fst (main [] s ep r sp opr sys) = 2"
    by (simp add: main_def)
next
  assume "args \<noteq> []"
  then show "fst (main args s ep r sp opr sys) = 0 \<or> fst (main args s ep r sp opr sys) = 1"
    by (auto simp: main_def Let_def split: prod.splits)
next
  assume "args \<noteq> []"
  then show "fst (main args s ep r sp opr sys) = 0 \<longleftrightarrow>
             ep \<noteq> None \<and> ep \<noteq> Some [] \<and> fst (run r sp opr sys (join_space args) s io0)"
    by (auto simp: main_def Let_def split: prod.splits)
next
  assume a: "args \<noteq> [] \<and> (fst (query_ai r io0) = None \<or> fst (query_ai r io0) = Some [])"
  then have f: "fst (run r sp opr sys (join_space args) s io0) = False
      \<and> executed (snd (run r sp opr sys (join_space args) s io0)) = executed io0"
    using run_generation_failure by blast
  with a show "fst (main args s ep r sp opr sys) = 1"
    by (auto simp: main_def Let_def split: prod.splits)
  from a f show "executed (snd (main args s ep r sp opr sys)) = []"
    by (auto simp: main_def Let_def print_err_def io0_def split: prod.splits)
next
  assume a: "args \<noteq> [] \<and> \<not> s \<and> (opr = KeyboardInterrupt \<or> opr = EOFError)"
  then have f: "fst (run r sp opr sys (join_space args) False io0) = False
      \<and> executed (snd (run r sp opr sys (join_space args) False io0)) = executed io0"
    by (intro run_interactive execute_cancelled) simp
  with a show "fst (main args s ep r sp opr sys) = 1"
    by (auto simp: main_def Let_def split: prod.splits)
  from a f show "executed (snd (main args s ep r sp opr sys)) = []"
    by (auto simp: main_def Let_def print_err_def io0_def split: prod.splits)
qed

text \<open>The theorem at a confirmed command, an HTTP error and an interrupt.\<close>

theorem exit_codes_witness:
  "[py ''list'', py ''files''] \<noteq> []
   \<and> fst (main [py ''list'', py ''files''] False some_endpoint reply_grep True
            (Enters (py ''ls'')) system_ok) = 0
   \<and> fst (query_ai reply_http_error io0) = None
   \<and> fst (main [py ''list'', py ''files''] False some_endpoint reply_http_error True
            (Enters (py ''ls'')) system_ok) = 1
   \<and> fst (main [py ''list'', py ''files''] False some_endpoint reply_grep True
            KeyboardInterrupt system_ok) = 1
   \<and> executed (snd (main [py ''list'', py ''files''] False some_endpoint reply_grep True
            KeyboardInterrupt system_ok)) = []"
proof -
  have n: "[py ''list'', py ''files''] \<noteq> []" by simp
  have e: "some_endpoint \<noteq> None \<and> some_endpoint \<noteq> Some []"
    by (simp add: some_endpoint_def py_def)
  have q: "fst (query_ai reply_http_error io0) = None"
    by (simp add: query_ai_def reply_http_error_def)
  have r: "fst (run reply_grep True (Enters (py ''ls'')) system_ok
             (join_space [py ''list'', py ''files'']) False io0)"
    by (simp add: run_def query_ai_def reply_grep_def execute_command_def Let_def system_ok_def
        strip_def is_space_def py_def)
  show ?thesis
    using exit_codes [where args = "[py ''list'', py ''files'']" and s = False
        and ep = some_endpoint and r = reply_grep and sp = True and opr = "Enters (py ''ls'')"
        and sys = system_ok]
      exit_codes [where args = "[py ''list'', py ''files'']" and s = False
        and ep = some_endpoint and r = reply_http_error and sp = True
        and opr = "Enters (py ''ls'')" and sys = system_ok]
      exit_codes [where args = "[py ''list'', py ''files'']" and s = False
        and ep = some_endpoint and r = reply_grep and sp = True and opr = KeyboardInterrupt
        and sys = system_ok]
      n e q r
    by simp
qed

text \<open>
  Claim C10. In interactive mode, when the operator confirms a line that is empty or made
  of whitespace only, no command is handed to \<open>os.system\<close> and the call returns false,
  in \<open>execute_command\<close> and so in \<open>run\<close>; a cancellation has the same outcome.
\<close>

theorem blank_line_not_executed:
  "(\<forall>c \<in> set line. is_space c) \<longrightarrow>
     fst (execute_command sp (Enters line) sys command w) = False
     \<and> executed (snd (execute_command sp (Enters line) sys command w)) = executed w
     \<and> fst (run r sp (Enters line) sys q False w) = False
     \<and> executed (snd (run r sp (Enters line) sys q False w)) = executed w
     \<and> fst (execute_command sp KeyboardInterrupt sys command w) = False
     \<and> executed (snd (execute_command sp KeyboardInterrupt sys command w)) = executed w"
proof (intro impI)
  assume b: "\<forall>c \<in> set line. is_space c"
  have "fst (run r sp (Enters line) sys q False w) = False
     \<and> executed (snd (run r sp (Enters line) sys q False w)) = executed w"
    by (intro run_interactive execute_blank b)
  then show "fst (execute_command sp (Enters line) sys command w) = False
     \<and> executed (snd (execute_command sp (Enters line) sys command w)) = executed w
     \<and> fst (run r sp (Enters line) sys q False w) = False
     \<and> executed (snd (run r sp (Enters line) sys q False w)) = executed w
     \<and> fst (execute_command sp KeyboardInterrupt sys command w) = False
     \<and> executed (snd (execute_command sp KeyboardInterrupt sys command w)) = executed w"
    using execute_blank [OF b, of sp sys command w]
      execute_cancelled [of KeyboardInterrupt sp sys command w]
    by simp
qed

text \<open>The theorem at a line made of a space and a tab.\<close>

theorem blank_line_not_executed_witness:
  "is_space 32 \<and> is_space 9
   \<and> run reply_grep True (Enters [32, 9]) system_ok (py ''find a dot b'') False io0 =
       (False,
        \<lparr>out = [py ''Query: find a dot b'',
                 py ''Generated command: grep a'' @ [backslash] @ py ''b'',
                 py ''Press Enter to execute, or Ctrl+C to cancel:'',
                 py ''No command to execute''],
         err = [], executed = []\<rparr>)"
proof -
  have s: "\<forall>c \<in> set [32, 9]. is_space c"
    by (simp add: is_space_def)
  have "run reply_grep True (Enters [32, 9]) system_ok (py ''find a dot b'') False io0 =
       (False,
        \<lparr>out = [py ''Query: find a dot b'',
                 py ''Generated command: grep a'' @ [backslash] @ py ''b'',
                 py ''Press Enter to execute, or Ctrl+C to cancel:'',
                 py ''No command to execute''],
         err = [], executed = []\<rparr>)"
    by (simp add: run_def query_ai_def reply_grep_def execute_command_def Let_def
        print_out_def io0_def strip_def is_space_def py_def)
  then show ?thesis
    using blank_line_not_executed [where line = "[32, 9]" and sp = True and sys = system_ok
        and command = "py ''x''" and w = io0 and r = reply_grep and q = "py ''find a dot b''"] s
    by (simp add: is_space_def)
qed

end
